theory Spec2Isabelle
  imports Main "HOL-Library.Sublist"
begin

section \<open>Python values, dictionaries and errors\<close>

text \<open>
  The values a command line and a compilation database carry: \<open>None\<close>, booleans,
  integers, strings and lists. A dictionary is an association list in insertion order;
  a well-formed one has distinct keys. The semantics is Python 3's.
\<close>

datatype pyval = PNone | PBool bool | PInt int | PStr string | PList "pyval list"

type_synonym pydict = "(string \<times> pyval) list"

datatype error =
    KeyError string
  | TypeError
  | FileNotFoundError string
  | FileExistsError string
  | DirectoryNotEmptyError string
  | JSONDecodeError
  | CollaboratorError string

definition has_key :: "pydict \<Rightarrow> string \<Rightarrow> bool" where
  \<comment> \<open>\<open>k in d\<close>\<close>
  "has_key d k = (map_of d k \<noteq> None)"

definition dict_index :: "pydict \<Rightarrow> string \<Rightarrow> error + pyval" where
  \<comment> \<open>\<open>d[k]\<close>\<close>
  "dict_index d k = (case map_of d k of None \<Rightarrow> Inl (KeyError k) | Some v \<Rightarrow> Inr v)"

definition dict_get :: "pydict \<Rightarrow> string \<Rightarrow> pyval" where
  \<comment> \<open>\<open>d.get(k)\<close>\<close>
  "dict_get d k = (case map_of d k of None \<Rightarrow> PNone | Some v \<Rightarrow> v)"

definition dict_set :: "pydict \<Rightarrow> string \<Rightarrow> pyval \<Rightarrow> pydict" where
  \<comment> \<open>\<open>d[k] = v\<close>: an existing key keeps its place\<close>
  "dict_set d k v =
     (if has_key d k then map (\<lambda>(k', v'). if k' = k then (k', v) else (k', v')) d
      else d @ [(k, v)])"

definition dict_update :: "pydict \<Rightarrow> pydict \<Rightarrow> pydict" where
  \<comment> \<open>\<open>d.update(c)\<close>\<close>
  "dict_update d c = foldl (\<lambda>acc (k, v). dict_set acc k v) d c"

definition py_truthy :: "pyval \<Rightarrow> bool" where
  "py_truthy v =
     (case v of PNone \<Rightarrow> False | PBool b \<Rightarrow> b | PInt i \<Rightarrow> i \<noteq> 0
      | PStr s \<Rightarrow> s \<noteq> [] | PList xs \<Rightarrow> xs \<noteq> [])"

definition py_le_int :: "int \<Rightarrow> pyval \<Rightarrow> error + bool" where
  \<comment> \<open>\<open>n <= v\<close>; a boolean counts as 0 or 1, other types do not compare with a number\<close>
  "py_le_int n v =
     (case v of PInt i \<Rightarrow> Inr (n \<le> i) | PBool b \<Rightarrow> Inr (n \<le> (if b then 1 else 0))
      | _ \<Rightarrow> Inl TypeError)"

definition py_iter :: "pyval \<Rightarrow> error + pyval list" where
  \<comment> \<open>the elements a \<open>for\<close> or \<open>reduce\<close> visits\<close>
  "py_iter v =
     (case v of PList xs \<Rightarrow> Inr xs | PStr s \<Rightarrow> Inr (map (\<lambda>c. PStr [c]) s)
      | _ \<Rightarrow> Inl TypeError)"

subsection \<open>Text of a value\<close>

fun str_nat :: "nat \<Rightarrow> string" where
  "str_nat n =
     (if n < 10 then [''0123456789'' ! n]
      else str_nat (n div 10) @ [''0123456789'' ! (n mod 10)])"

definition str_int :: "int \<Rightarrow> string" where
  "str_int i = (if i < 0 then CHR ''-'' # str_nat (nat (- i)) else str_nat (nat i))"

definition hex2 :: "nat \<Rightarrow> string" where
  "hex2 n = [''0123456789abcdef'' ! ((n div 16) mod 16), ''0123456789abcdef'' ! (n mod 16)]"

definition repr_char :: "char \<Rightarrow> char \<Rightarrow> string" where
  \<comment> \<open>one character of \<open>repr(s)\<close> inside the quote \<open>q\<close>; characters outside ASCII are
      copied (Python escapes the unprintable ones among them)\<close>
  "repr_char q c =
     (if c = q \<or> c = CHR 0x5C then [CHR 0x5C, c]
      else if c = CHR 0x09 then [CHR 0x5C, CHR ''t'']
      else if c = CHR 0x0A then [CHR 0x5C, CHR ''n'']
      else if c = CHR 0x0D then [CHR 0x5C, CHR ''r'']
      else if (of_char c :: nat) < 32 \<or> (of_char c :: nat) = 127
        then [CHR 0x5C, CHR ''x''] @ hex2 (of_char c)
      else [c])"

definition repr_str :: "string \<Rightarrow> string" where
  "repr_str s =
     (let q = (if CHR 0x27 \<in> set s \<and> CHR 0x22 \<notin> set s then CHR 0x22 else CHR 0x27)
      in q # concat (map (repr_char q) s) @ [q])"

fun join :: "string \<Rightarrow> string list \<Rightarrow> string" where
  "join sep [] = []"
| "join sep [x] = x"
| "join sep (x # y # ys) = x @ sep @ join sep (y # ys)"

fun py_repr :: "pyval \<Rightarrow> string" where
  "py_repr PNone = ''None''"
| "py_repr (PBool b) = (if b then ''True'' else ''False'')"
| "py_repr (PInt i) = str_int i"
| "py_repr (PStr s) = repr_str s"
| "py_repr (PList xs) = ''['' @ join '', '' (map py_repr xs) @ '']''"

definition py_str :: "pyval \<Rightarrow> string" where
  \<comment> \<open>\<open>str(v)\<close>, which is also what \<open>'{0}'.format(v)\<close> inserts\<close>
  "py_str v = (case v of PStr s \<Rightarrow> s | _ \<Rightarrow> py_repr v)"

section \<open>libscanbuild: the duplicate check\<close>

text \<open>
  \<open>duplicate_check(method)\<close> returns a function object carrying two attributes,
  \<open>unique\<close> (the identity function) and \<open>state\<close> (the set of identities seen). A call
  reads and updates \<open>state\<close>; the model returns the verdict and the updated object.
\<close>

record ('a, 'b) predicate =
  unique :: "'a \<Rightarrow> 'b"
  state :: "'b set"

definition duplicate_check :: "('a \<Rightarrow> 'b) \<Rightarrow> ('a, 'b) predicate" where
  "duplicate_check method = \<lparr>unique = method, state = {}\<rparr>"

definition predicate_call :: "('a, 'b) predicate \<Rightarrow> 'a \<Rightarrow> bool \<times> ('a, 'b) predicate" where
  "predicate_call p entry =
     (let entry_hash = unique p entry in
      if entry_hash \<notin> state p
      then (False, p\<lparr>state := insert entry_hash (state p)\<rparr>)
      else (True, p))"

text \<open>One pass over a sequence: the verdicts in order, and the records kept by
  \<open>[x for x in xs if not predicate(x)]\<close>.\<close>

fun verdicts :: "('a, 'b) predicate \<Rightarrow> 'a list \<Rightarrow> bool list" where
  "verdicts p [] = []"
| "verdicts p (x # xs) = (case predicate_call p x of (b, p') \<Rightarrow> b # verdicts p' xs)"

fun first_occurrences :: "('a, 'b) predicate \<Rightarrow> 'a list \<Rightarrow> 'a list" where
  "first_occurrences p [] = []"
| "first_occurrences p (x # xs) =
     (case predicate_call p x of
        (b, p') \<Rightarrow> if b then first_occurrences p' xs else x # first_occurrences p' xs)"

section \<open>analyzer.beye: the analyzer's arguments\<close>

definition reduce_pairs :: "string \<Rightarrow> pyval \<Rightarrow> pyval list \<Rightarrow> error + pyval list" where
  \<comment> \<open>\<open>functools.reduce(lambda acc, x: acc + [flag, x], v, result)\<close>\<close>
  "reduce_pairs flag v result =
     (case py_iter v of
        Inl e \<Rightarrow> Inl e
      | Inr xs \<Rightarrow> Inr (foldl (\<lambda>acc x. acc @ [PStr flag, x]) result xs))"

definition parameters_from_command_line :: "pydict \<Rightarrow> error + pyval list" where
  "parameters_from_command_line args =
     (let opts = filter (\<lambda>(k, v). v \<noteq> PNone) args;
          result = [];
          result = (case map_of opts ''store_model'' of
                      None \<Rightarrow> result
                    | Some v \<Rightarrow> result @ [PStr (''-analyzer-store='' @ py_str v)]);
          result = (case map_of opts ''constraints_model'' of
                      None \<Rightarrow> result
                    | Some v \<Rightarrow> result @ [PStr (''-analyzer-constraints='' @ py_str v)]);
          result = (if has_key opts ''internal_stats''
                    then result @ [PStr ''-analyzer-stats''] else result);
          result = (if has_key opts ''analyze_headers''
                    then result @ [PStr ''-analyzer-opt-analyze-headers''] else result);
          result = (if has_key opts ''stats''
                    then result @ [PStr ''-analyzer-checker=debug.Stats''] else result);
          result = (case map_of opts ''maxloop'' of
                      None \<Rightarrow> result
                    | Some v \<Rightarrow> result @ [PStr ''-analyzer-max-loop'', PStr (py_str v)]);
          result = (case map_of opts ''output_format'' of
                      None \<Rightarrow> result
                    | Some v \<Rightarrow> result @ [PStr (''-analyzer-output='' @ py_str v)]);
          result = (case map_of opts ''analyzer_config'' of
                      None \<Rightarrow> result
                    | Some v \<Rightarrow> result @ [v])
      in
      case (case map_of opts ''verbose'' of None \<Rightarrow> Inr False | Some v \<Rightarrow> py_le_int 2 v) of
        Inl e \<Rightarrow> Inl e
      | Inr progress \<Rightarrow>
      let result = (if progress then result @ [PStr ''-analyzer-display-progress''] else result)
      in
      case (case map_of opts ''plugins'' of
              None \<Rightarrow> Inr result
            | Some v \<Rightarrow> reduce_pairs ''-load'' v result) of
        Inl e \<Rightarrow> Inl e
      | Inr result \<Rightarrow>
      case (case map_of opts ''enable_checker'' of
              None \<Rightarrow> Inr result
            | Some v \<Rightarrow> reduce_pairs ''-analyzer-checker'' v result) of
        Inl e \<Rightarrow> Inl e
      | Inr result \<Rightarrow>
      case (case map_of opts ''disable_checker'' of
              None \<Rightarrow> Inr result
            | Some v \<Rightarrow> reduce_pairs ''-analyzer-disable-checker'' v result) of
        Inl e \<Rightarrow> Inl e
      | Inr result \<Rightarrow>
      let result = (if has_key opts ''ubiviz''
                    then result @ [PStr ''-analyzer-viz-egraph-ubigraph''] else result)
      in Inr (foldl (\<lambda>acc x. acc @ [PStr ''-Xclang'', x]) [] result))"

text \<open>
  The dictionary \<open>parse_command_line\<close> returns for an empty command line: every declared
  option with its default, in the order of declaration (\<open>store_true\<close> gives \<open>False\<close>,
  \<open>store_false\<close> gives \<open>True\<close>, an option without default gives \<open>None\<close>).
\<close>

definition parse_command_line_defaults :: pydict where
  "parse_command_line_defaults =
     [(''input'', PStr ''compile_commands.json''),
      (''output'', PStr ''/tmp''),
      (''sequential'', PBool False),
      (''status_bugs'', PBool False),
      (''html_title'', PNone),
      (''analyze_headers'', PBool False),
      (''output_format'', PStr ''html''),
      (''verbose'', PInt 0),
      (''keep_empty'', PBool False),
      (''report_failures'', PBool True),
      (''stats'', PBool False),
      (''internal_stats'', PBool False),
      (''maxloop'', PInt 4),
      (''store_model'', PStr ''region''),
      (''constraints_model'', PStr ''range''),
      (''clang'', PStr ''clang''),
      (''analyzer_config'', PNone),
      (''plugins'', PNone),
      (''enable_checker'', PNone),
      (''disable_checker'', PNone)]"

subsection \<open>The emission rules, option by option\<close>

text \<open>
  The rules of the argument translator as the specification words them: each option
  contributes its own flags, as a function of the value the configuration maps it to.
\<close>

definition setting :: "pydict \<Rightarrow> string \<Rightarrow> pyval option" where
  \<comment> \<open>the value an option is set to; an option mapped to \<open>None\<close> is not set\<close>
  "setting args k = (case map_of args k of Some PNone \<Rightarrow> None | r \<Rightarrow> r)"

definition value_flag :: "string \<Rightarrow> pydict \<Rightarrow> string \<Rightarrow> pyval list" where
  "value_flag txt args k =
     (case setting args k of None \<Rightarrow> [] | Some v \<Rightarrow> [PStr (txt @ py_str v)])"

definition two_token_flag :: "string \<Rightarrow> pydict \<Rightarrow> string \<Rightarrow> pyval list" where
  "two_token_flag flag args k =
     (case setting args k of None \<Rightarrow> [] | Some v \<Rightarrow> [PStr flag, PStr (py_str v)])"

definition verbatim_flag :: "pydict \<Rightarrow> string \<Rightarrow> pyval list" where
  "verbatim_flag args k = (case setting args k of None \<Rightarrow> [] | Some v \<Rightarrow> [v])"

definition plain_flag :: "string \<Rightarrow> pydict \<Rightarrow> string \<Rightarrow> pyval list" where
  "plain_flag flag args k = (if setting args k = None then [] else [PStr flag])"

definition flag_pairs :: "string \<Rightarrow> pydict \<Rightarrow> string \<Rightarrow> pyval list" where
  "flag_pairs flag args k =
     (case setting args k of
        None \<Rightarrow> []
      | Some v \<Rightarrow>
          (case py_iter v of Inl e \<Rightarrow> [] | Inr xs \<Rightarrow> concat (map (\<lambda>x. [PStr flag, x]) xs)))"

definition not_iterable :: "pydict \<Rightarrow> string \<Rightarrow> bool" where
  "not_iterable args k =
     (case setting args k of None \<Rightarrow> False | Some v \<Rightarrow> py_iter v = Inl TypeError)"

definition verbosity_at_least :: "int \<Rightarrow> pydict \<Rightarrow> bool" where
  "verbosity_at_least n args =
     (case setting args ''verbose'' of None \<Rightarrow> False | Some v \<Rightarrow> py_le_int n v = Inr True)"

definition ill_typed :: "pydict \<Rightarrow> bool" where
  \<comment> \<open>the configurations on which the translator raises \<open>TypeError\<close>\<close>
  "ill_typed args =
     ((case setting args ''verbose'' of None \<Rightarrow> False | Some v \<Rightarrow> py_le_int 2 v = Inl TypeError)
      \<or> not_iterable args ''plugins''
      \<or> not_iterable args ''enable_checker''
      \<or> not_iterable args ''disable_checker'')"

definition pass_through :: "pyval list \<Rightarrow> pyval list" where
  "pass_through flags = concat (map (\<lambda>x. [PStr ''-Xclang'', x]) flags)"

section \<open>The file system, the log and the collaborators\<close>

text \<open>
  What a run does to its surroundings is recorded in a \<open>world\<close>: the directories that
  exist, each with the names it contains, and the trace of the run's actions (directory
  creation and removal, dispatch of an entry to the analysis step, the call of the report
  generator, log records at info and warning level). A path is the string handed to the
  operating system; a path that exists is a directory, and creating a directory succeeds
  unless the path exists.
\<close>

datatype event =
    Mkdir string
  | Rmdir string
  | Dispatch pydict
  | Report pydict
  | LogInfo string
  | LogWarning string


fun is_report :: "event \<Rightarrow> bool" where
  "is_report (Report p) = True"
| "is_report ev = False"

type_synonym directories = "string \<rightharpoonup> string list"

record world =
  dirs :: directories
  trace :: "event list"

text \<open>The result of the analysis step: \<open>None\<close>, or a dictionary whose key \<open>analyzer\<close>,
  when present, holds a dictionary whose key \<open>error_output\<close>, when present, holds the
  lines the analyzer printed.\<close>

record analyzer_dict =
  error_output :: "string list option"

record analysis_result =
  analyzer :: "analyzer_dict option"

text \<open>
  The surroundings the code reads, and the functions it imports from modules that are
  not part of the sources, as parameters: the directory \<open>tempfile.gettempdir()\<close> answers
  and the random names \<open>tempfile.mkdtemp\<close> draws; what opening and parsing the
  compilation database gives (\<open>FileNotFoundError\<close>, \<open>JSONDecodeError\<close> or the entries);
  the output of \<open>uname -a\<close>; \<open>analyzer.driver.run\<close> and
  \<open>analyzer.report.generate_report\<close>, which may raise and may change the directories.
  The decorator \<open>trace\<close> of \<open>analyzer.decorators\<close> only logs below debug level and is
  left out; \<open>require(keys)\<close> is taken to raise \<open>KeyError\<close> for a missing key.
\<close>

record env =
  tempdir :: string
  temp_names :: "string list"
  database :: "pyval \<Rightarrow> error + pydict list"
  uname :: string
  run :: "pydict \<Rightarrow> directories \<Rightarrow> (error + analysis_result option) \<times> directories"
  generate_report :: "pydict \<Rightarrow> directories \<Rightarrow> (error + int) \<times> directories"

definition logging_info :: "string \<Rightarrow> world \<Rightarrow> world" where
  "logging_info msg w = w\<lparr>trace := trace w @ [LogInfo msg]\<rparr>"

definition logging_warning :: "string \<Rightarrow> world \<Rightarrow> world" where
  "logging_warning msg w = w\<lparr>trace := trace w @ [LogWarning msg]\<rparr>"

definition os_mkdir :: "string \<Rightarrow> world \<Rightarrow> (error + unit) \<times> world" where
  "os_mkdir p w =
     (if dirs w p \<noteq> None then (Inl (FileExistsError p), w)
      else (Inr (), w\<lparr>dirs := (dirs w)(p \<mapsto> []), trace := trace w @ [Mkdir p]\<rparr>))"

definition os_listdir :: "string \<Rightarrow> world \<Rightarrow> error + string list" where
  "os_listdir p w = (case dirs w p of None \<Rightarrow> Inl (FileNotFoundError p) | Some es \<Rightarrow> Inr es)"

definition os_rmdir :: "string \<Rightarrow> world \<Rightarrow> (error + unit) \<times> world" where
  "os_rmdir p w =
     (case dirs w p of
        None \<Rightarrow> (Inl (FileNotFoundError p), w)
      | Some es \<Rightarrow>
          if es \<noteq> [] then (Inl (DirectoryNotEmptyError p), w)
          else (Inr (), w\<lparr>dirs := (dirs w)(p := None), trace := trace w @ [Rmdir p]\<rparr>))"

definition os_path_isdir :: "string \<Rightarrow> world \<Rightarrow> bool" where
  "os_path_isdir p w = (dirs w p \<noteq> None)"

definition os_path_dirname :: "string \<Rightarrow> string" where
  \<comment> \<open>\<open>posixpath.dirname\<close>: the part up to the last slash, without trailing slashes unless
      it consists of slashes only\<close>
  "os_path_dirname p =
     (let head = rev (dropWhile (\<lambda>c. c \<noteq> CHR ''/'') (rev p))
      in if head \<noteq> [] \<and> head \<noteq> replicate (length head) CHR ''/''
         then rev (dropWhile (\<lambda>c. c = CHR ''/'') (rev head))
         else head)"

fun os_path_commonprefix :: "string \<Rightarrow> string \<Rightarrow> string" where
  \<comment> \<open>\<open>os.path.commonprefix([a, b])\<close>: character by character\<close>
  "os_path_commonprefix (x # xs) (y # ys) =
     (if x = y then x # os_path_commonprefix xs ys else [])"
| "os_path_commonprefix xs ys = []"

definition os_path_join :: "string \<Rightarrow> string \<Rightarrow> string" where
  \<comment> \<open>\<open>os.path.join(a, b)\<close> for a \<open>b\<close> that does not start with a slash\<close>
  "os_path_join a b =
     (if a = [] \<or> last a = CHR ''/'' then a @ b else a @ ''/'' @ b)"

definition rstrip :: "string \<Rightarrow> string" where
  \<comment> \<open>\<open>line.rstrip()\<close>: trailing ASCII white space removed\<close>
  "rstrip s =
     rev (dropWhile (\<lambda>c. c \<in> set [CHR 0x20, CHR 0x09, CHR 0x0A, CHR 0x0B, CHR 0x0C, CHR 0x0D,
                                    CHR 0x1C, CHR 0x1D, CHR 0x1E, CHR 0x1F]) (rev s))"

section \<open>analyzer.beye: the report directory\<close>

record ReportDirectory =
  name :: string
  keep :: pyval

fun mkdtemp_names :: "string \<Rightarrow> string list \<Rightarrow> world \<Rightarrow> (error + string) \<times> world" where
  \<comment> \<open>the loop of \<open>tempfile.mkdtemp\<close> over the names it draws; it gives up when they
      are used up\<close>
  "mkdtemp_names dir [] w = (Inl (FileExistsError dir), w)"
| "mkdtemp_names dir (n # ns) w =
     (let file = os_path_join dir (''beye-'' @ n @ ''.out'') in
      case os_mkdir file w of
        (Inl e, w') \<Rightarrow> mkdtemp_names dir ns w'
      | (Inr u, w') \<Rightarrow> (Inr file, w'))"

definition tempfile_mkdtemp :: "env \<Rightarrow> world \<Rightarrow> (error + string) \<times> world" where
  \<comment> \<open>\<open>tempfile.mkdtemp(prefix='beye-', suffix='.out')\<close>\<close>
  "tempfile_mkdtemp e w = mkdtemp_names (tempdir e) (temp_names e) w"

definition ReportDirectory_create :: "env \<Rightarrow> pyval \<Rightarrow> world \<Rightarrow> (error + string) \<times> world" where
  "ReportDirectory_create e hint w =
     (if hint \<noteq> PStr ''/tmp'' then
        (case hint of
           PStr p \<Rightarrow>
             (case os_mkdir p w of
                (Inl err, w') \<Rightarrow> (Inl err, w')
              | (Inr u, w') \<Rightarrow> (Inr p, w'))
         | _ \<Rightarrow> (Inl TypeError, w))
      else tempfile_mkdtemp e w)"

definition ReportDirectory_init ::
  "env \<Rightarrow> pyval \<Rightarrow> pyval \<Rightarrow> world \<Rightarrow> (error + ReportDirectory) \<times> world" where
  "ReportDirectory_init e hint kp w =
     (case ReportDirectory_create e hint w of
        (Inl err, w') \<Rightarrow> (Inl err, w')
      | (Inr n, w') \<Rightarrow> (Inr \<lparr>name = n, keep = kp\<rparr>, w'))"

definition ReportDirectory_enter :: "ReportDirectory \<Rightarrow> string" where
  "ReportDirectory_enter self = name self"

definition ReportDirectory_exit :: "ReportDirectory \<Rightarrow> world \<Rightarrow> (error + unit) \<times> world" where
  "ReportDirectory_exit self w =
     (case os_listdir (name self) w of
        Inl err \<Rightarrow> (Inl err, w)
      | Inr entries \<Rightarrow>
          if entries \<noteq> [] then
            (Inr (), logging_warning
               (''Run '' @ [CHR 0x27] @ ''scan-view '' @ name self @ [CHR 0x27]
                  @ '' to examine bug reports.'') w)
          else if py_truthy (keep self) then
            (Inr (), logging_warning
               (''Report directory '' @ [CHR 0x27] @ name self @ [CHR 0x27]
                  @ '' contans no report, but kept.'') w)
          else
            (case os_rmdir (name self) w of
               (Inl err, w') \<Rightarrow> (Inl err, w')
             | (Inr u, w') \<Rightarrow>
                 (Inr (), logging_warning
                    (''Removing directory '' @ [CHR 0x27] @ name self @ [CHR 0x27]
                       @ '' because it contains no report.'') w')))"

section \<open>analyzer.beye: the common prefix\<close>

definition entry_dirname :: "pydict \<Rightarrow> error + string" where
  \<comment> \<open>\<open>os.path.dirname(entry['file'])\<close>\<close>
  "entry_dirname entry =
     (case dict_index entry ''file'' of
        Inl err \<Rightarrow> Inl err
      | Inr (PStr f) \<Rightarrow> Inr (os_path_dirname f)
      | Inr _ \<Rightarrow> Inl TypeError)"

fun entry_dirnames :: "pydict list \<Rightarrow> error + string list" where
  "entry_dirnames [] = Inr []"
| "entry_dirnames (entry # entries) =
     (case entry_dirname entry of
        Inl err \<Rightarrow> Inl err
      | Inr d \<Rightarrow>
          (case entry_dirnames entries of Inl err \<Rightarrow> Inl err | Inr ds \<Rightarrow> Inr (d # ds)))"

definition filenames :: "env \<Rightarrow> pyval \<Rightarrow> error + string list" where
  "filenames e compilation_database =
     (case database e compilation_database of
        Inl err \<Rightarrow> Inl err
      | Inr entries \<Rightarrow> entry_dirnames entries)"

definition common :: "string list \<Rightarrow> world \<Rightarrow> string" where
  "common files w =
     (let result =
        foldl (\<lambda>result current.
                 case result of None \<Rightarrow> Some current
                 | Some r \<Rightarrow> Some (os_path_commonprefix r current)) None files
      in case result of
           None \<Rightarrow> []
         | Some r \<Rightarrow> if \<not> os_path_isdir r w then os_path_dirname r else r)"

definition get_prefix_from :: "env \<Rightarrow> pyval \<Rightarrow> world \<Rightarrow> error + string" where
  "get_prefix_from e compilation_database w =
     (case filenames e compilation_database of
        Inl err \<Rightarrow> Inl err
      | Inr files \<Rightarrow> Inr (common files w))"

section \<open>analyzer.beye: running the analyzer\<close>

definition common_params :: "env \<Rightarrow> pydict \<Rightarrow> string \<Rightarrow> error + pydict" where
  "common_params e opts out_dir =
     (case dict_index opts ''clang'' of
        Inl err \<Rightarrow> Inl err
      | Inr clang \<Rightarrow>
          (case parameters_from_command_line opts of
             Inl err \<Rightarrow> Inl err
           | Inr direct_args \<Rightarrow>
               Inr [(''clang'', clang),
                    (''out_dir'', PStr out_dir),
                    (''direct_args'', PList direct_args),
                    (''uname'', PStr (uname e))]))"

definition consume :: "analysis_result option \<Rightarrow> world \<Rightarrow> (error + unit) \<times> world" where
  \<comment> \<open>the body of the loop over the results: the test and the logging of the lines\<close>
  "consume current w =
     (case current of
        None \<Rightarrow> (Inr (), w)
      | Some r \<Rightarrow>
          (case analyzer r of
             None \<Rightarrow> (Inr (), w)
           | Some a \<Rightarrow>
               (case error_output a of
                  None \<Rightarrow> (Inl (KeyError ''error_output''), w)
                | Some lines \<Rightarrow>
                    (Inr (), foldl (\<lambda>acc line. logging_info (rstrip line) acc) w lines))))"


text \<open>
  The pool hands every entry, updated with the constants, to \<open>run\<close> and the loop consumes
  the results. The model takes the entries in the order of the database; the pool may
  deliver the results in another order. An exception of \<open>run\<close> or of the loop's body ends
  the loop.
\<close>

fun dispatch_all :: "env \<Rightarrow> pydict \<Rightarrow> pydict list \<Rightarrow> world \<Rightarrow> (error + unit) \<times> world" where
  "dispatch_all e const [] w = (Inr (), w)"
| "dispatch_all e const (current # rest) w =
     (let params = dict_update current const;
          w1 = w\<lparr>trace := trace w @ [Dispatch params]\<rparr>
      in case run e params (dirs w1) of
           (Inl err, d) \<Rightarrow> (Inl err, w1\<lparr>dirs := d\<rparr>)
         | (Inr result, d) \<Rightarrow>
             (case consume result (w1\<lparr>dirs := d\<rparr>) of
                (Inl err, w2) \<Rightarrow> (Inl err, w2)
              | (Inr u, w2) \<Rightarrow> dispatch_all e const rest w2))"

definition run_analyzer :: "env \<Rightarrow> pydict \<Rightarrow> string \<Rightarrow> world \<Rightarrow> (error + unit) \<times> world" where
  "run_analyzer e args out_dir w =
     (if \<not> has_key args ''input'' then (Inl (KeyError ''input''), w)
      else if \<not> has_key args ''sequential'' then (Inl (KeyError ''sequential''), w)
      else
        case database e (dict_get args ''input'') of
          Inl err \<Rightarrow> (Inl err, w)
        | Inr entries \<Rightarrow>
            (case common_params e args out_dir of
               Inl err \<Rightarrow> (Inl err, w)
             | Inr const \<Rightarrow> dispatch_all e const entries w))"

section \<open>analyzer.beye: the entry point\<close>

definition from_number_to_level :: "pyval \<Rightarrow> int" where
  "from_number_to_level num =
     (if num = PInt 0 \<or> num = PBool False then 30
      else if num = PInt 1 \<or> num = PBool True then 20
      else if num = PInt 2 then 10
      else 5)"

definition needs_report_file :: "pydict \<Rightarrow> bool" where
  "needs_report_file opts =
     (let output_format = dict_get opts ''output_format''
      in PStr ''html'' = output_format \<or> PStr ''plist-html'' = output_format)"

definition number_of_bugs :: "env \<Rightarrow> pydict \<Rightarrow> string \<Rightarrow> world \<Rightarrow> (error + int) \<times> world" where
  \<comment> \<open>\<open>generate_report({...}) if needs_report_file(args) else 0\<close>\<close>
  "number_of_bugs e args out_dir w =
     (if needs_report_file args then
        (case dict_index args ''sequential'' of
           Inl err \<Rightarrow> (Inl err, w)
         | Inr sequential \<Rightarrow>
        (case dict_index args ''input'' of
           Inl err \<Rightarrow> (Inl err, w)
         | Inr input \<Rightarrow>
        (case get_prefix_from e input w of
           Inl err \<Rightarrow> (Inl err, w)
         | Inr pre \<Rightarrow>
        (case dict_index args ''clang'' of
           Inl err \<Rightarrow> (Inl err, w)
         | Inr clang \<Rightarrow>
        (case dict_index args ''html_title'' of
           Inl err \<Rightarrow> (Inl err, w)
         | Inr html_title \<Rightarrow>
             (let d = [(''sequential'', sequential),
                       (''out_dir'', PStr out_dir),
                       (''prefix'', PStr pre),
                       (''clang'', clang),
                       (''html_title'', html_title)];
                  w1 = w\<lparr>trace := trace w @ [Report d]\<rparr>
              in case generate_report e d (dirs w1) of
                   (r, dd) \<Rightarrow> (r, w1\<lparr>dirs := dd\<rparr>)))))))
      else (Inr 0, w))"

definition main_body :: "env \<Rightarrow> pydict \<Rightarrow> string \<Rightarrow> world \<Rightarrow> (error + int) \<times> world" where
  \<comment> \<open>the body of the \<open>with\<close> statement\<close>
  "main_body e args out_dir w =
     (case run_analyzer e args out_dir w of
        (Inl err, w1) \<Rightarrow> (Inl err, w1)
      | (Inr u, w1) \<Rightarrow>
          (case number_of_bugs e args out_dir w1 of
             (Inl err, w2) \<Rightarrow> (Inl err, w2)
           | (Inr n, w2) \<Rightarrow> (Inr (if has_key args ''status_bugs'' then n else 0), w2)))"

text \<open>
  \<open>main\<close>, from the dictionary \<open>parse_command_line()\<close> returned. The \<open>with\<close> statement
  calls \<open>__exit__\<close> when the body returns and when it raises; \<open>__exit__\<close> returns \<open>None\<close>,
  so an exception of the body goes on, unless \<open>__exit__\<close> raises itself. The value \<open>main\<close>
  returns is what the launcher hands to \<open>sys.exit\<close>. Of the logger's level only the
  lookup of \<open>args['verbose']\<close> is kept: the trace records the info and warning records
  whatever the level.
\<close>

definition main :: "env \<Rightarrow> pydict \<Rightarrow> world \<Rightarrow> (error + int) \<times> world" where
  "main e args w =
     (case dict_index args ''verbose'' of
        Inl err \<Rightarrow> (Inl err, w)
      | Inr verbose \<Rightarrow>
     (case dict_index args ''output'' of
        Inl err \<Rightarrow> (Inl err, w)
      | Inr hint \<Rightarrow>
     (case dict_index args ''keep_empty'' of
        Inl err \<Rightarrow> (Inl err, w)
      | Inr kp \<Rightarrow>
     (case ReportDirectory_init e hint kp w of
        (Inl err, w1) \<Rightarrow> (Inl err, w1)
      | (Inr self, w1) \<Rightarrow>
          (case main_body e args (ReportDirectory_enter self) w1 of
             (r, w2) \<Rightarrow>
               (case ReportDirectory_exit self w2 of
                  (Inl err, w3) \<Rightarrow> (Inl err, w3)
                | (Inr u, w3) \<Rightarrow> (r, w3)))))))"

section \<open>Concrete surroundings\<close>

text \<open>
  A project of two source files under \<open>/src\<close>, beside a directory \<open>/src/foo\<close>; a
  compilation database \<open>compile_commands.json\<close> naming both files; an analysis step that
  prints one line per entry and leaves a file in the output directory; a report generator
  that writes \<open>index.html\<close> and counts two defects.
\<close>

definition example_database :: "pydict list" where
  "example_database =
     [[(''directory'', PStr ''/src''), (''command'', PStr ''cc -c foo1/a.c''),
       (''file'', PStr ''/src/foo1/a.c'')],
      [(''directory'', PStr ''/src''), (''command'', PStr ''cc -c foo2/b.c''),
       (''file'', PStr ''/src/foo2/b.c'')]]"

definition write_file :: "string \<Rightarrow> string \<Rightarrow> directories \<Rightarrow> directories" where
  "write_file dir f d = (case d dir of None \<Rightarrow> d | Some es \<Rightarrow> d(dir \<mapsto> es @ [f]))"

definition example_env :: env where
  "example_env =
     \<lparr>tempdir = ''/tmp'',
      temp_names = [''k3x9q2''],
      database = (\<lambda>p. if p = PStr ''compile_commands.json'' then Inr example_database
                       else Inl (FileNotFoundError (py_str p))),
      uname = ''Linux'',
      run = (\<lambda>params d.
               (Inr (Some \<lparr>analyzer = Some \<lparr>error_output = Some [''1 warning generated.  '']\<rparr>\<rparr>),
                write_file (py_str (dict_get params ''out_dir'')) ''report.plist'' d)),
      generate_report = (\<lambda>params d.
               (Inr 2, write_file (py_str (dict_get params ''out_dir'')) ''index.html'' d))\<rparr>"

definition example_world :: world where
  "example_world =
     \<lparr>dirs = [''/tmp'' \<mapsto> [], ''/var/tmp'' \<mapsto> [],
              ''/src'' \<mapsto> [''foo'', ''foo1'', ''foo2''],
              ''/src/foo'' \<mapsto> [''README''],
              ''/src/foo1'' \<mapsto> [''a.c''],
              ''/src/foo2'' \<mapsto> [''b.c'']],
      trace = []\<rparr>"

section \<open>Properties of the duplicate check\<close>

lemma verdicts_Cons:
  "verdicts p (x # xs) =
     (if unique p x \<in> state p then True # verdicts p xs
      else False # verdicts (p\<lparr>state := insert (unique p x) (state p)\<rparr>) xs)"
  by (simp add: predicate_call_def Let_def)

lemma first_occurrences_Cons:
  "first_occurrences p (x # xs) =
     (if unique p x \<in> state p then first_occurrences p xs
      else x # first_occurrences (p\<lparr>state := insert (unique p x) (state p)\<rparr>) xs)"
  by (simp add: predicate_call_def Let_def)

lemma verdicts_length: "length (verdicts p xs) = length xs"
  by (induction xs arbitrary: p) (auto simp: predicate_call_def Let_def)

lemma verdicts_nth:
  "i < length xs \<Longrightarrow>
   verdicts p xs ! i = (unique p (xs ! i) \<in> state p \<union> unique p ` set (take i xs))"
proof (induction xs arbitrary: p i)
  case Nil
  then show ?case by simp
next
  case (Cons x xs)
  show ?case
  proof (cases i)
    case 0
    then show ?thesis by (simp add: predicate_call_def Let_def)
  next
    case (Suc k)
    with Cons.prems have k: "k < length xs" by simp
    show ?thesis using Cons.IH[OF k] Suc
      by (auto simp: predicate_call_def Let_def)
  qed
qed

lemma verdicts_append:
  "verdicts p (xs @ ys) = verdicts p xs @ drop (length xs) (verdicts p (xs @ ys))"
  by (induction xs arbitrary: p) (auto simp: predicate_call_def Let_def)

lemma first_occurrences_set:
  "unique p ` set (first_occurrences p xs) = unique p ` set xs - state p"
proof (induction xs arbitrary: p)
  case Nil
  then show ?case by simp
next
  case (Cons x xs)
  let ?q = "p\<lparr>state := insert (unique p x) (state p)\<rparr>"
  show ?case
  proof (cases "unique p x \<in> state p")
    case True
    then show ?thesis using Cons.IH[of p]
      by (auto simp del: first_occurrences.simps simp: first_occurrences_Cons)
  next
    case False
    have "unique p ` set (first_occurrences ?q xs) =
          unique p ` set xs - insert (unique p x) (state p)"
      using Cons.IH[of ?q] by simp
    then show ?thesis using False
      by (auto simp del: first_occurrences.simps simp: first_occurrences_Cons)
  qed
qed

lemma first_occurrences_distinct:
  "distinct (map (unique p) (first_occurrences p xs))"
proof (induction xs arbitrary: p)
  case Nil
  then show ?case by simp
next
  case (Cons x xs)
  let ?q = "p\<lparr>state := insert (unique p x) (state p)\<rparr>"
  have "unique p x \<notin> unique ?q ` set (first_occurrences ?q xs)"
    unfolding first_occurrences_set by simp
  then show ?case using Cons.IH[of ?q] Cons.IH[of p]
    by (simp del: first_occurrences.simps add: first_occurrences_Cons)
qed

lemma first_occurrences_subseq: "subseq (first_occurrences p xs) xs"
  by (induction xs arbitrary: p) (auto simp: predicate_call_def Let_def)

lemma first_occurrences_filter:
  "first_occurrences p xs = map fst (filter (\<lambda>(x, b). \<not> b) (zip xs (verdicts p xs)))"
  by (induction xs arbitrary: p) (auto simp: predicate_call_def Let_def)

text \<open>
  Claim C8. The predicate built by \<open>duplicate_check m\<close>, called on the records of a
  sequence in order, answers at position \<open>i\<close> whether the identity of record \<open>i\<close> already
  occurred among the records before it: false on a first occurrence, true on every repeat.
  The answers on a prefix do not depend on what follows (a single pass, no look-ahead).
  The records on which it answers false have pairwise different identities, cover every
  identity of the sequence, and stand in their original relative order.
\<close>

theorem duplicate_check_first_occurrence:
  "verdicts (duplicate_check m) xs =
     map (\<lambda>i. m (xs ! i) \<in> m ` set (take i xs)) [0..<length xs]
   \<and> take (length xs) (verdicts (duplicate_check m) (xs @ ys)) = verdicts (duplicate_check m) xs
   \<and> first_occurrences (duplicate_check m) xs =
       map fst (filter (\<lambda>(x, b). \<not> b) (zip xs (verdicts (duplicate_check m) xs)))
   \<and> distinct (map m (first_occurrences (duplicate_check m) xs))
   \<and> m ` set (first_occurrences (duplicate_check m) xs) = m ` set xs
   \<and> subseq (first_occurrences (duplicate_check m) xs) xs"
proof -
  let ?p = "duplicate_check m"
  have u: "unique ?p = m" and s: "state ?p = {}" by (simp_all add: duplicate_check_def)
  have a: "verdicts ?p xs = map (\<lambda>i. m (xs ! i) \<in> m ` set (take i xs)) [0..<length xs]"
    by (rule nth_equalityI) (simp_all add: verdicts_length verdicts_nth u s)
  have b: "take (length xs) (verdicts ?p (xs @ ys)) = verdicts ?p xs"
    using verdicts_append[of ?p xs ys] verdicts_length[of ?p xs]
    by (metis append_eq_conv_conj)
  have c: "distinct (map m (first_occurrences ?p xs))"
    using first_occurrences_distinct[of ?p xs] by (simp add: u)
  have d: "m ` set (first_occurrences ?p xs) = m ` set xs"
    using first_occurrences_set[of ?p xs] by (simp add: u s)
  show ?thesis using a b c d first_occurrences_subseq first_occurrences_filter by blast
qed

section \<open>Properties of the argument translator\<close>

lemma map_of_not_None_filter:
  "distinct (map fst args) \<Longrightarrow>
   map_of (filter (\<lambda>(k, v). v \<noteq> PNone) args) k = setting args k"
proof (induction args)
  case Nil
  then show ?case by (simp add: setting_def)
next
  case (Cons a args)
  obtain k' v' where a: "a = (k', v')" by (cases a)
  have notin: "k' \<notin> fst ` set args" using Cons.prems a by simp
  have none: "map_of (filter (\<lambda>(k, v). v \<noteq> PNone) args) k' = None"
    using notin by (auto simp: map_of_eq_None_iff image_iff)
  show ?case using Cons a none
    by (auto simp: setting_def split: option.splits pyval.splits)
qed

lemma foldl_pairs:
  "foldl (\<lambda>acc x. acc @ [PStr flag, x]) result xs =
   result @ concat (map (\<lambda>x. [PStr flag, x]) xs)"
  by (induction xs arbitrary: result) simp_all

lemma py_le_int_cases: "py_le_int n v = Inl TypeError \<or> (\<exists>b. py_le_int n v = Inr b)"
  by (cases v) (simp_all add: py_le_int_def)

lemma py_iter_cases: "py_iter v = Inl TypeError \<or> (\<exists>xs. py_iter v = Inr xs)"
  by (cases v) (simp_all add: py_iter_def)

lemma verbose_step:
  "(case setting args ''verbose'' of None \<Rightarrow> Inr False | Some v \<Rightarrow> py_le_int 2 v) =
   (if (case setting args ''verbose'' of None \<Rightarrow> False
        | Some v \<Rightarrow> py_le_int 2 v = Inl TypeError)
    then Inl TypeError else Inr (verbosity_at_least 2 args))"
proof (cases "setting args ''verbose''")
  case None
  then show ?thesis by (simp add: verbosity_at_least_def)
next
  case (Some v)
  then show ?thesis using py_le_int_cases[of 2 v]
    by (auto simp: verbosity_at_least_def)
qed

lemma reduce_step:
  "(case setting args k of None \<Rightarrow> Inr result | Some v \<Rightarrow> reduce_pairs flag v result) =
   (if not_iterable args k then Inl TypeError else Inr (result @ flag_pairs flag args k))"
proof (cases "setting args k")
  case None
  then show ?thesis by (simp add: not_iterable_def flag_pairs_def)
next
  case (Some v)
  then show ?thesis using py_iter_cases[of v]
    by (auto simp: not_iterable_def flag_pairs_def reduce_pairs_def foldl_pairs)
qed

lemma value_step:
  "(case setting args k of None \<Rightarrow> result | Some v \<Rightarrow> result @ [PStr (txt @ py_str v)]) =
   result @ value_flag txt args k"
  by (simp add: value_flag_def split: option.splits)

lemma plain_step:
  "(if setting args k \<noteq> None then result @ [PStr flag] else result) =
   result @ plain_flag flag args k"
  by (simp add: plain_flag_def)

lemma two_token_step:
  "(case setting args k of None \<Rightarrow> result
    | Some v \<Rightarrow> result @ [PStr flag, PStr (py_str v)]) =
   result @ two_token_flag flag args k"
  by (simp add: two_token_flag_def split: option.splits)

lemma verbatim_step:
  "(case setting args k of None \<Rightarrow> result | Some v \<Rightarrow> result @ [v]) =
   result @ verbatim_flag args k"
  by (simp add: verbatim_flag_def split: option.splits)

lemma parameters_decomposition:
  assumes "distinct (map fst args)"
  shows "parameters_from_command_line args =
     (if ill_typed args then Inl TypeError
      else Inr (pass_through
        (value_flag ''-analyzer-store='' args ''store_model'' @
         value_flag ''-analyzer-constraints='' args ''constraints_model'' @
         plain_flag ''-analyzer-stats'' args ''internal_stats'' @
         plain_flag ''-analyzer-opt-analyze-headers'' args ''analyze_headers'' @
         plain_flag ''-analyzer-checker=debug.Stats'' args ''stats'' @
         two_token_flag ''-analyzer-max-loop'' args ''maxloop'' @
         value_flag ''-analyzer-output='' args ''output_format'' @
         verbatim_flag args ''analyzer_config'' @
         (if verbosity_at_least 2 args then [PStr ''-analyzer-display-progress''] else []) @
         flag_pairs ''-load'' args ''plugins'' @
         flag_pairs ''-analyzer-checker'' args ''enable_checker'' @
         flag_pairs ''-analyzer-disable-checker'' args ''disable_checker'' @
         plain_flag ''-analyzer-viz-egraph-ubigraph'' args ''ubiviz'')))"
  unfolding parameters_from_command_line_def Let_def has_key_def
    map_of_not_None_filter[OF assms]
  apply (simp only: value_step plain_step two_token_step verbatim_step verbose_step
      reduce_step)
  apply (simp add: ill_typed_def pass_through_def foldl_pairs)
  done

lemma setting_same_mapping:
  assumes "distinct (map fst args)" and "distinct (map fst args')" and "set args' = set args"
  shows "setting args' = setting args"
proof -
  have "map_of args' = map_of args"
    using assms map_of_inject_set[of args' args] by simp
  then show ?thesis by (simp add: setting_def fun_eq_iff)
qed

text \<open>
  Claim C3. For a configuration dictionary (distinct keys), the translator either raises
  \<open>TypeError\<close> (a verbosity that is no number, a plugin or checker value that cannot be
  iterated) or returns the flags of the options in this fixed order: store model,
  constraints model, internal-stats, analyze-headers, stats, max-loop (flag and value),
  output format, analyzer-config (verbatim), the progress flag when verbosity is at least
  2, a pair per plugin, a pair per enabled checker, a pair per disabled checker, and last
  the flag of the \<open>ubiviz\<close> key (which the command line never sets); every flag is
  preceded by \<open>-Xclang\<close>, in that order. A dictionary holding the same items in another
  order gives the same result.
\<close>

theorem parameters_fixed_order:
  assumes "distinct (map fst args)" and "distinct (map fst args')" and "set args' = set args"
  shows "parameters_from_command_line args =
     (if ill_typed args then Inl TypeError
      else Inr (pass_through
        (value_flag ''-analyzer-store='' args ''store_model'' @
         value_flag ''-analyzer-constraints='' args ''constraints_model'' @
         plain_flag ''-analyzer-stats'' args ''internal_stats'' @
         plain_flag ''-analyzer-opt-analyze-headers'' args ''analyze_headers'' @
         plain_flag ''-analyzer-checker=debug.Stats'' args ''stats'' @
         two_token_flag ''-analyzer-max-loop'' args ''maxloop'' @
         value_flag ''-analyzer-output='' args ''output_format'' @
         verbatim_flag args ''analyzer_config'' @
         (if verbosity_at_least 2 args then [PStr ''-analyzer-display-progress''] else []) @
         flag_pairs ''-load'' args ''plugins'' @
         flag_pairs ''-analyzer-checker'' args ''enable_checker'' @
         flag_pairs ''-analyzer-disable-checker'' args ''disable_checker'' @
         plain_flag ''-analyzer-viz-egraph-ubigraph'' args ''ubiviz'')))
   \<and> parameters_from_command_line args' = parameters_from_command_line args"
proof -
  have s: "setting args' = setting args"
    using assms by (rule setting_same_mapping)
  have "parameters_from_command_line args' = parameters_from_command_line args"
    unfolding parameters_decomposition[OF assms(1)] parameters_decomposition[OF assms(2)]
    by (simp add: s ill_typed_def not_iterable_def value_flag_def plain_flag_def
        two_token_flag_def verbatim_flag_def verbosity_at_least_def flag_pairs_def)
  then show ?thesis using parameters_decomposition[OF assms(1)] by simp
qed

theorem parameters_fixed_order_witness:
  "parameters_from_command_line
     [(''disable_checker'', PList [PStr ''core.NullDereference'']),
      (''verbose'', PInt 2),
      (''plugins'', PList [PStr ''a.so'', PStr ''b.so'']),
      (''html_title'', PNone),
      (''store_model'', PStr ''basic'')]
   = Inr [PStr ''-Xclang'', PStr ''-analyzer-store=basic'',
          PStr ''-Xclang'', PStr ''-analyzer-display-progress'',
          PStr ''-Xclang'', PStr ''-load'', PStr ''-Xclang'', PStr ''a.so'',
          PStr ''-Xclang'', PStr ''-load'', PStr ''-Xclang'', PStr ''b.so'',
          PStr ''-Xclang'', PStr ''-analyzer-disable-checker'',
          PStr ''-Xclang'', PStr ''core.NullDereference'']
   \<and> parameters_from_command_line
     [(''store_model'', PStr ''basic''),
      (''plugins'', PList [PStr ''a.so'', PStr ''b.so'']),
      (''html_title'', PNone),
      (''disable_checker'', PList [PStr ''core.NullDereference'']),
      (''verbose'', PInt 2)]
   = parameters_from_command_line
     [(''disable_checker'', PList [PStr ''core.NullDereference'']),
      (''verbose'', PInt 2),
      (''plugins'', PList [PStr ''a.so'', PStr ''b.so'']),
      (''html_title'', PNone),
      (''store_model'', PStr ''basic'')]"
  using parameters_fixed_order
    [of "[(''disable_checker'', PList [PStr ''core.NullDereference'']),
          (''verbose'', PInt 2),
          (''plugins'', PList [PStr ''a.so'', PStr ''b.so'']),
          (''html_title'', PNone),
          (''store_model'', PStr ''basic'')]"
        "[(''store_model'', PStr ''basic''),
          (''plugins'', PList [PStr ''a.so'', PStr ''b.so'']),
          (''html_title'', PNone),
          (''disable_checker'', PList [PStr ''core.NullDereference'']),
          (''verbose'', PInt 2)]"]
  by (simp add: ill_typed_def not_iterable_def value_flag_def plain_flag_def
      two_token_flag_def verbatim_flag_def verbosity_at_least_def flag_pairs_def
      setting_def pass_through_def py_iter_def py_le_int_def py_str_def insert_commute)

text \<open>
  Claim C2, evaluated on the code. For an empty command line \<open>internal_stats\<close>,
  \<open>analyze_headers\<close> and \<open>stats\<close> are in the dictionary with the value \<open>False\<close>, which is
  not \<open>None\<close>: the translator's presence tests hold and it emits \<open>-analyzer-stats\<close>,
  \<open>-analyzer-opt-analyze-headers\<close> and \<open>-analyzer-checker=debug.Stats\<close> although none
  of the three options was requested.
\<close>

theorem parameters_of_empty_command_line:
  "dict_index parse_command_line_defaults ''internal_stats'' = Inr (PBool False)
   \<and> dict_index parse_command_line_defaults ''analyze_headers'' = Inr (PBool False)
   \<and> dict_index parse_command_line_defaults ''stats'' = Inr (PBool False)
   \<and> parameters_from_command_line parse_command_line_defaults =
       Inr [PStr ''-Xclang'', PStr ''-analyzer-store=region'',
            PStr ''-Xclang'', PStr ''-analyzer-constraints=range'',
            PStr ''-Xclang'', PStr ''-analyzer-stats'',
            PStr ''-Xclang'', PStr ''-analyzer-opt-analyze-headers'',
            PStr ''-Xclang'', PStr ''-analyzer-checker=debug.Stats'',
            PStr ''-Xclang'', PStr ''-analyzer-max-loop'', PStr ''-Xclang'', PStr ''4'',
            PStr ''-Xclang'', PStr ''-analyzer-output=html'']"
  by (simp add: parameters_from_command_line_def parse_command_line_defaults_def
      dict_index_def has_key_def py_str_def py_le_int_def str_int_def)

section \<open>Properties of the report directory\<close>

lemma release_result:
  assumes "dirs w (name self) = Some entries"
  shows "ReportDirectory_exit self w =
     (Inr (),
      if entries \<noteq> [] then
        logging_warning (''Run '' @ [CHR 0x27] @ ''scan-view '' @ name self @ [CHR 0x27]
                  @ '' to examine bug reports.'') w
      else if py_truthy (keep self) then
        logging_warning (''Report directory '' @ [CHR 0x27] @ name self @ [CHR 0x27]
                  @ '' contans no report, but kept.'') w
      else logging_warning (''Removing directory '' @ [CHR 0x27] @ name self @ [CHR 0x27]
                       @ '' because it contains no report.'')
             (w\<lparr>dirs := (dirs w)(name self := None),
                trace := trace w @ [Rmdir (name self)]\<rparr>))"
  using assms by (simp add: ReportDirectory_exit_def os_listdir_def os_rmdir_def)

text \<open>
  Claim C5. When the output directory exists at release, \<open>__exit__\<close> returns normally and
  afterwards the directory exists exactly when it was non-empty, or empty with the
  keep-empty option set. An empty directory without keep-empty is removed; a non-empty
  one is never removed, and its contents and every other directory stay as they were.
\<close>

theorem release_keeps_or_removes:
  assumes "dirs w (name self) = Some entries"
  shows "\<exists>w'. ReportDirectory_exit self w = (Inr (), w')
     \<and> (dirs w' (name self) \<noteq> None) =
         (entries \<noteq> [] \<or> (entries = [] \<and> py_truthy (keep self)))
     \<and> (entries = [] \<and> \<not> py_truthy (keep self) \<longrightarrow>
          dirs w' (name self) = None \<and> Rmdir (name self) \<in> set (trace w'))
     \<and> (entries \<noteq> [] \<longrightarrow>
          dirs w' = dirs w \<and> Rmdir (name self) \<notin> set (trace w') - set (trace w))
     \<and> (\<forall>p. p \<noteq> name self \<longrightarrow> dirs w' p = dirs w p)"
  using assms unfolding release_result[OF assms]
  by (auto simp: logging_warning_def)

theorem release_keeps_or_removes_witness:
  "dirs \<lparr>dirs = [''/out'' \<mapsto> []], trace = []\<rparr> (name \<lparr>name = ''/out'', keep = PBool False\<rparr>)
     = Some []
   \<and> (\<exists>w'. ReportDirectory_exit \<lparr>name = ''/out'', keep = PBool False\<rparr>
              \<lparr>dirs = [''/out'' \<mapsto> []], trace = []\<rparr> = (Inr (), w')
           \<and> dirs w' ''/out'' = None \<and> Rmdir ''/out'' \<in> set (trace w'))"
  using release_keeps_or_removes
    [of "\<lparr>dirs = [''/out'' \<mapsto> []], trace = []\<rparr>" "\<lparr>name = ''/out'', keep = PBool False\<rparr>" "[]"]
  by (auto simp: py_truthy_def)






section \<open>Properties of the common prefix\<close>

text \<open>
  Claim C7, evaluated on the code. The two entries lie in \<open>/src/foo1\<close> and \<open>/src/foo2\<close>;
  the character-wise common prefix of the two directories is \<open>/src/foo\<close>, which happens to
  be a directory, so it is returned: a partial name of both directories, where the common
  directory is \<open>/src\<close>.
\<close>

theorem get_prefix_from_partial_name:
  "entry_dirnames example_database = Inr [''/src/foo1'', ''/src/foo2'']
   \<and> os_path_isdir ''/src/foo'' example_world
   \<and> get_prefix_from example_env (PStr ''compile_commands.json'') example_world
       = Inr ''/src/foo''"
  by (simp add: get_prefix_from_def filenames_def example_env_def example_database_def
      entry_dirname_def dict_index_def os_path_dirname_def common_def os_path_isdir_def
      example_world_def)

section \<open>Properties of running the analyzer\<close>







section \<open>Properties of the entry point\<close>



















lemmas eval_defs = main_def example_env_def parse_command_line_defaults_def dict_index_def
      ReportDirectory_init_def ReportDirectory_create_def tempfile_mkdtemp_def os_mkdir_def
      os_path_join_def main_body_def run_analyzer_def has_key_def dict_get_def
      common_params_def number_of_bugs_def needs_report_file_def get_prefix_from_def
      filenames_def common_def ReportDirectory_exit_def ReportDirectory_enter_def
      os_listdir_def py_truthy_def os_rmdir_def logging_warning_def logging_info_def
      parameters_from_command_line_def py_str_def py_le_int_def str_int_def
      example_world_def example_database_def consume_def write_file_def dict_update_def
      dict_set_def entry_dirname_def os_path_dirname_def os_path_isdir_def rstrip_def Let_def

lemma main_example:
  "case main example_env parse_command_line_defaults example_world of
     (r, w') \<Rightarrow>
       r = Inr 2
       \<and> filter is_report (trace w') =
           [Report [(''sequential'', PBool False),
                    (''out_dir'', PStr ''/tmp/beye-k3x9q2.out''),
                    (''prefix'', PStr ''/src/foo''),
                    (''clang'', PStr ''clang''),
                    (''html_title'', PNone)]]
       \<and> dirs w' ''/tmp/beye-k3x9q2.out'' = Some [''report.plist'', ''report.plist'', ''index.html'']"
  by (simp add: eval_defs)

lemma main_example_status_bugs:
  "fst (main example_env (dict_set parse_command_line_defaults ''status_bugs'' (PBool True))
          example_world) = Inr 2"
  by (simp add: eval_defs)

text \<open>
  Claim C1, evaluated on the code. For an empty command line the dictionary has the key
  \<open>status_bugs\<close> with the value \<open>False\<close>, so the test \<open>'status_bugs' in args\<close> holds and
  \<open>main\<close> returns the defect count 2 of the report generator, where the claim has 0; with
  \<open>--status-bugs\<close> given it returns the same count 2, where the claim has 1.
\<close>

theorem main_returns_defect_count:
  "dict_index parse_command_line_defaults ''status_bugs'' = Inr (PBool False)
   \<and> fst (main example_env parse_command_line_defaults example_world) = Inr 2
   \<and> dict_index (dict_set parse_command_line_defaults ''status_bugs'' (PBool True))
        ''status_bugs'' = Inr (PBool True)
   \<and> fst (main example_env (dict_set parse_command_line_defaults ''status_bugs'' (PBool True))
          example_world) = Inr 2"
  using main_example main_example_status_bugs
  by (simp add: case_prod_beta dict_index_def parse_command_line_defaults_def dict_set_def
      has_key_def)



end
